theory Spec2Isabelle
  imports
    Complex_Main
    "HOL-Library.List_Lexorder"
    "HOL-Library.Char_ord"
    "HOL-Library.Product_Lexorder"
    "HOL-Library.Multiset"
begin

section \<open>Data model of app.py\<close>

text \<open>
  Amounts are Python floats (SQLite REAL, pandas float64): real numbers. The sums of the
  library (\<^verbatim>\<open>Series.sum\<close>, \<^verbatim>\<open>groupby(...).sum()\<close>) are modelled by exact sums. The
  operations that the source itself applies to the totals in \<^verbatim>\<open>financial_health_score\<close>
  and in the top-category rule (subtraction, division, multiplication, the comparison
  with the literal 0.4) are modelled with the rounding of double precision, see below.

  A calendar date is the triple (year, month, day); with the lexicographic order on
  products its comparison is the comparison of \<^verbatim>\<open>datetime.date\<close>.
\<close>

type_synonym date = "int \<times> int \<times> int"

text \<open>
  A row of the table \<^verbatim>\<open>entries\<close> (and of the data frame read from it). The columns
  \<^verbatim>\<open>id\<close> and \<^verbatim>\<open>created_at\<close> are read by no computation and are left out.
  The column \<^verbatim>\<open>type\<close> is TEXT: any string can be stored in it. The column
  \<^verbatim>\<open>note\<close> is the field \<open>entry_note\<close> (\<open>note\<close> is a reserved word here).
\<close>

record entry =
  user_id :: nat
  type :: string
  amount :: real
  category :: string
  entry_note :: string
  date :: date

datatype error = ZeroDivisionError | IndexError | ValueError

text \<open>
  Python's \<^verbatim>\<open>a / b\<close> on floats raises ZeroDivisionError when \<^verbatim>\<open>b\<close> is zero. This
  version returns the exact quotient; it is the division of the budget and low-savings
  rules. \<open>float_div\<close> below rounds the quotient.
\<close>

definition py_div :: "real \<Rightarrow> real \<Rightarrow> error + real" where
  "py_div a b = (if b = 0 then Inl ZeroDivisionError else Inr (a / b))"


text \<open>Sequencing of two computations that may raise.\<close>

definition and_then :: "error + 'a \<Rightarrow> ('a \<Rightarrow> error + 'b) \<Rightarrow> error + 'b" where
  "and_then r f = (case r of Inl e \<Rightarrow> Inl e | Inr x \<Rightarrow> f x)"

section \<open>Double-precision arithmetic\<close>

text \<open>
  Python floats are IEEE 754 binary64 numbers, and every arithmetic operation returns the
  exact result rounded to the nearest of them, ties to the even significand. \<open>double\<close>
  is that rounding, on the reals: a non-zero \<open>x\<close> with \<open>2 ^ e \<le> \<bar>x\<bar> < 2 ^ (e + 1)\<close> is
  rounded to a multiple of \<open>2 ^ (e - 52)\<close> (of \<open>2 ^ - 1074\<close> in the subnormal range).
  Overflow to infinity and NaN are not represented.
\<close>

function exponent_of :: "real \<Rightarrow> int" where
  "exponent_of x =
     (if x \<le> 0 then 0
      else if x < 1 then exponent_of (2 * x) - 1
      else if 2 \<le> x then exponent_of (x / 2) + 1
      else 0)"
  by pat_completeness auto
termination
proof (relation "measure (\<lambda>x. nat \<bar>\<lfloor>log 2 x\<rfloor>\<bar>)")
  show "wf (measure (\<lambda>x. nat \<bar>\<lfloor>log 2 x\<rfloor>\<bar>))" by simp
next
  fix x :: real
  assume "\<not> x \<le> 0" "x < 1"
  then have x: "0 < x" "x < 1" by simp_all
  then have "log 2 (2 * x) = 1 + log 2 x" by (simp add: log_mult)
  then have f: "\<lfloor>log 2 (2 * x)\<rfloor> = 1 + \<lfloor>log 2 x\<rfloor>" by simp
  from x have "log 2 x < 0" by simp
  then have n: "\<lfloor>log 2 x\<rfloor> \<le> - 1" by linarith
  show "(2 * x, x) \<in> measure (\<lambda>x. nat \<bar>\<lfloor>log 2 x\<rfloor>\<bar>)"
    unfolding in_measure f using n by arith
next
  fix x :: real
  assume "\<not> x \<le> 0" "\<not> x < 1" "2 \<le> x"
  then have x: "0 < x" "2 \<le> x" by simp_all
  then have "log 2 (x / 2) = log 2 x - 1" by (simp add: log_divide)
  then have f: "\<lfloor>log 2 (x / 2)\<rfloor> = \<lfloor>log 2 x\<rfloor> - 1" by simp
  from x have "1 \<le> log 2 x" by simp
  then have n: "1 \<le> \<lfloor>log 2 x\<rfloor>" by linarith
  show "(x / 2, x) \<in> measure (\<lambda>x. nat \<bar>\<lfloor>log 2 x\<rfloor>\<bar>)"
    unfolding in_measure f using n by arith
qed

declare exponent_of.simps [simp del]

definition pow2 :: "int \<Rightarrow> real" where
  "pow2 k = (if 0 \<le> k then 2 ^ nat k else 1 / 2 ^ nat (- k))"

definition round_half_even :: "real \<Rightarrow> int" where
  "round_half_even x =
     (let f = \<lfloor>x\<rfloor>; r = x - of_int f
      in if r < 1 / 2 then f else if 1 / 2 < r then f + 1 else if even f then f else f + 1)"

definition double :: "real \<Rightarrow> real" where
  "double x =
     (if x = 0 then 0
      else (let k = max (exponent_of \<bar>x\<bar> - 52) (- 1074);
                m = round_half_even (\<bar>x\<bar> / pow2 k)
            in sgn x * of_int m * pow2 k))"

text \<open>
  The operations of Python on two floats: \<^verbatim>\<open>a - b\<close>, \<^verbatim>\<open>a * b\<close> and \<^verbatim>\<open>a / b\<close>, which
  raises ZeroDivisionError when \<^verbatim>\<open>b\<close> is zero.
\<close>

definition float_sub :: "real \<Rightarrow> real \<Rightarrow> real" where
  "float_sub a b = double (a - b)"

definition float_mul :: "real \<Rightarrow> real \<Rightarrow> real" where
  "float_mul a b = double (a * b)"

definition float_div :: "real \<Rightarrow> real \<Rightarrow> error + real" where
  "float_div a b = (if b = 0 then Inl ZeroDivisionError else Inr (double (a / b)))"

section \<open>Financial utilities\<close>

text \<open>
  \<^verbatim>\<open>
  def compute_summary(df):
      income = df[df['type']=='Income']['amount'].sum() if not df.empty else 0.0
      expenses = df[df['type']=='Expense']['amount'].sum() if not df.empty else 0.0
      savings = income - expenses
      return income, expenses, savings
  \<close>
\<close>

definition compute_summary :: "entry list \<Rightarrow> real \<times> real \<times> real" where
  "compute_summary df =
     (let income = (if df \<noteq> [] then sum_list (map amount (filter (\<lambda>e. type e = ''Income'') df)) else 0);
          expenses = (if df \<noteq> [] then sum_list (map amount (filter (\<lambda>e. type e = ''Expense'') df)) else 0);
          savings = income - expenses
      in (income, expenses, savings))"


text \<open>
  The messages of \<^verbatim>\<open>generate_insights\<close>. Each constructor stands for one of the
  six f-strings of the function and carries the values interpolated into it, in the order
  of the template; the formatting of the numbers (\<^verbatim>\<open>:.0%\<close>, \<^verbatim>\<open>:,.2f\<close>) is
  presentation and is not modelled.
  \<^item> \<open>TopCategoryWarning top_pct top_cat\<close>: "You spend .. of your expenses on .. Consider reducing it."
  \<^item> \<open>TopCategoryOk top_cat top_pct\<close>: "Your highest expense category is .. (.. of expenses)."
  \<^item> \<open>BudgetExceeded budget monthly_exp\<close>: "You exceeded your monthly budget of .. You've spent .. this month."
  \<^item> \<open>BudgetUsed pct monthly_exp budget\<close>: "You used .. of your monthly budget (.. of ..)."
  \<^item> \<open>LowSavings\<close>: "Your savings are very low. Try reducing non-essential spending or increasing income."
  \<^item> \<open>NoMajorIssues\<close>: "No major issues detected. Keep tracking your expenses!"
\<close>

datatype insight =
    TopCategoryWarning real string
  | TopCategoryOk string real
  | BudgetExceeded real real
  | BudgetUsed real real real
  | LowSavings
  | NoMajorIssues

text \<open>
  \<^verbatim>\<open>series.groupby(key)[value].sum()\<close> of pandas: one row per distinct key, the keys in
  ascending order (\<^verbatim>\<open>sort=True\<close> is the default), each with the sum of its values. A
  series is the list of its (index, value) rows.
\<close>

definition groupby_sum :: "('k::linorder \<times> real) list \<Rightarrow> ('k \<times> real) list" where
  "groupby_sum rows =
     map (\<lambda>k. (k, sum_list (map snd (filter (\<lambda>r. fst r = k) rows))))
         (sort (remdups (map fst rows)))"

text \<open>
  \<^verbatim>\<open>series.sort_values(ascending=False)\<close> is the library's: it returns the rows of the
  series by descending value, sorted with its default \<^verbatim>\<open>kind='quicksort'\<close>, which is not
  stable, so that the order of rows of equal value is not determined by the source. The
  sort is an argument \<open>sort_values\<close> of the functions that call it, and
  \<open>descending_sort\<close> is what is known of it: the result is a rearrangement of the rows,
  in descending order of value.
\<close>

definition descending_sort :: "((string \<times> real) list \<Rightarrow> (string \<times> real) list) \<Rightarrow> bool" where
  "descending_sort sort_values \<longleftrightarrow>
     (\<forall>s. mset (sort_values s) = mset s \<and> sorted (map (\<lambda>r. - snd r) (sort_values s)))"

text \<open>
  Two sorts of that kind. The first is stable: rows of equal value keep their order. The
  second sorts by ascending value and reads the result backwards: rows of equal value
  come out in reverse order.
\<close>

definition stable_sort_desc :: "(string \<times> real) list \<Rightarrow> (string \<times> real) list" where
  "stable_sort_desc s = sort_key (\<lambda>r. - snd r) s"


text \<open>
  The four blocks of \<^verbatim>\<open>generate_insights\<close>, each taking the list \<^verbatim>\<open>insights\<close> built so
  far and returning it with what the block appends.
  \<^verbatim>\<open>
      if not df.empty and (df['type']=='Expense').any():
          exp_df = df[df['type']=='Expense'].groupby('category')['amount'].sum().sort_values(ascending=False)
          top_cat = exp_df.index[0]
          top_pct = exp_df.iloc[0] / expenses if expenses>0 else 0
          if top_pct > 0.4:
              insights.append(f"... You spend {top_pct:.0%} of your expenses on {top_cat}. Consider reducing it.")
          else:
              insights.append(f"... Your highest expense category is {top_cat} ({top_pct:.0%} of expenses).")
  \<close>
  \<^verbatim>\<open>exp_df.index[0]\<close> raises IndexError on an empty series. The literal \<^verbatim>\<open>0.4\<close> is the
  double nearest to 2/5.
\<close>

definition top_category_block ::
    "((string \<times> real) list \<Rightarrow> (string \<times> real) list) \<Rightarrow> entry list \<Rightarrow> real \<Rightarrow> insight list
     \<Rightarrow> error + insight list" where
  "top_category_block sort_values df expenses insights =
     (if df \<noteq> [] \<and> list_ex (\<lambda>e. type e = ''Expense'') df then
        (let exp_df = sort_values (groupby_sum
                        (map (\<lambda>e. (category e, amount e)) (filter (\<lambda>e. type e = ''Expense'') df)))
         in case exp_df of
              [] \<Rightarrow> Inl IndexError
            | (top_cat, top_val) # _ \<Rightarrow>
                and_then (if expenses > 0 then float_div top_val expenses else Inr 0) (\<lambda>top_pct.
                  if top_pct > double (2 / 5) then Inr (insights @ [TopCategoryWarning top_pct top_cat])
                  else Inr (insights @ [TopCategoryOk top_cat top_pct])))
      else Inr insights)"

text \<open>
  \<^verbatim>\<open>
      if budget is not None:
          this_month = date.today().replace(day=1)
          monthly_exp = df[(df['type']=='Expense') & (pd.to_datetime(df['date']).dt.date >= this_month)]['amount'].sum() if not df.empty else 0
          if monthly_exp > budget:
              insights.append(f"... You exceeded your monthly budget of {budget:,.2f}. You've spent {monthly_exp:,.2f} this month.")
          else:
              pct = (monthly_exp / budget) if budget>0 else 0
              insights.append(f"... You used {pct:.0%} of your monthly budget ({monthly_exp:,.2f} of {budget:,.2f}).")
  \<close>
  The value of \<^verbatim>\<open>date.today()\<close> is the argument \<open>today\<close>.
\<close>

definition replace_day1 :: "date \<Rightarrow> date" where
  "replace_day1 d = (case d of (y, m, _) \<Rightarrow> (y, m, 1))"

definition budget_block :: "date \<Rightarrow> entry list \<Rightarrow> real option \<Rightarrow> insight list \<Rightarrow> error + insight list" where
  "budget_block today df budget insights =
     (case budget of
        None \<Rightarrow> Inr insights
      | Some b \<Rightarrow>
          (let this_month = replace_day1 today;
               monthly_exp = (if df \<noteq> [] then
                   sum_list (map amount (filter (\<lambda>e. type e = ''Expense'' \<and> date e \<ge> this_month) df))
                 else 0)
           in if monthly_exp > b then Inr (insights @ [BudgetExceeded b monthly_exp])
              else and_then (if b > 0 then py_div monthly_exp b else Inr 0) (\<lambda>pct.
                     Inr (insights @ [BudgetUsed pct monthly_exp b]))))"

text \<open>
  \<^verbatim>\<open>
      if income>0 and (income-expenses)/income < 0.05:
          insights.append("... Your savings are very low. ...")
  \<close>
  \<^verbatim>\<open>and\<close> evaluates its second operand only when the first is true.
\<close>

definition low_savings_block :: "real \<Rightarrow> real \<Rightarrow> insight list \<Rightarrow> error + insight list" where
  "low_savings_block income expenses insights =
     (if income > 0 then
        and_then (py_div (income - expenses) income) (\<lambda>r.
          if r < 0.05 then Inr (insights @ [LowSavings]) else Inr insights)
      else Inr insights)"

text \<open>
  \<^verbatim>\<open>
      if not insights:
          insights.append("No major issues detected. Keep tracking your expenses!")
      return insights
  \<close>
\<close>

definition fallback_block :: "insight list \<Rightarrow> insight list" where
  "fallback_block insights = (if insights = [] then insights @ [NoMajorIssues] else insights)"

definition generate_insights ::
    "((string \<times> real) list \<Rightarrow> (string \<times> real) list) \<Rightarrow> date \<Rightarrow> entry list \<Rightarrow> real \<Rightarrow> real
     \<Rightarrow> real option \<Rightarrow> error + insight list" where
  "generate_insights sort_values today df income expenses budget =
     and_then (top_category_block sort_values df expenses []) (\<lambda>insights1.
     and_then (budget_block today df budget insights1) (\<lambda>insights2.
     and_then (low_savings_block income expenses insights2) (\<lambda>insights3.
     Inr (fallback_block insights3))))"

section \<open>Aggregates of the page script\<close>

text \<open>
  \<^verbatim>\<open>
  exp_df = df[df['type']=='Expense'].groupby('category')['amount'].sum() if not df.empty else pd.Series()
  \<close>
\<close>

definition expense_by_category :: "entry list \<Rightarrow> (string \<times> real) list" where
  "expense_by_category df =
     (if df \<noteq> [] then
        groupby_sum (map (\<lambda>e. (category e, amount e)) (filter (\<lambda>e. type e = ''Expense'') df))
      else [])"

text \<open>
  \<^verbatim>\<open>
  if not df.empty:
      df_sorted = df.sort_values('date').copy()
      df_sorted['net'] = df_sorted.apply(lambda r: r['amount'] if r['type']=='Income' else -r['amount'], axis=1)
      trend = df_sorted.groupby('date')['net'].sum().cumsum()
      ...
  else:
      st.info("No data yet to show trend")
  \<close>
  A block of the page that is skipped yields \<open>None\<close>.
\<close>

fun cumsum_from :: "real \<Rightarrow> ('k \<times> real) list \<Rightarrow> ('k \<times> real) list" where
  "cumsum_from acc [] = []"
| "cumsum_from acc ((k, v) # rows) = (k, acc + v) # cumsum_from (acc + v) rows"

definition cumsum :: "('k \<times> real) list \<Rightarrow> ('k \<times> real) list" where
  "cumsum s = cumsum_from 0 s"

definition savings_trend :: "entry list \<Rightarrow> (date \<times> real) list option" where
  "savings_trend df =
     (if df \<noteq> [] then
        (let df_sorted = sort_key date df;
             net = map (\<lambda>r. (date r, if type r = ''Income'' then amount r else - amount r)) df_sorted
         in Some (cumsum (groupby_sum net)))
      else None)"

text \<open>
  \<^verbatim>\<open>
  if not df.empty:
      df['month'] = pd.to_datetime(df['date']).dt.to_period('M')
      monthly = df[df['type']=='Expense'].groupby('month')['amount'].sum()
      ...
  else:
      st.info("No data")
  \<close>
\<close>

definition to_period_M :: "date \<Rightarrow> int \<times> int" where
  "to_period_M d = (case d of (y, m, _) \<Rightarrow> (y, m))"

definition expense_by_month :: "entry list \<Rightarrow> ((int \<times> int) \<times> real) list option" where
  "expense_by_month df =
     (if df \<noteq> [] then
        Some (groupby_sum (map (\<lambda>e. (to_period_M (date e), amount e)) (filter (\<lambda>e. type e = ''Expense'') df)))
      else None)"

text \<open>
  \<^verbatim>\<open>
  if not df.empty:
      df['weekday'] = pd.to_datetime(df['date']).dt.day_name()
      heat = df[df['type']=='Expense'].groupby('weekday')['amount'].sum().reindex(
          ['Monday','Tuesday','Wednesday','Thursday','Friday','Saturday','Sunday']).fillna(0)
      ...
  else:
      st.info("No expense data")
  \<close>
  \<^verbatim>\<open>day_name\<close> is the library's; it is modelled by the day of the week of the proleptic
  Gregorian calendar (Monday is 0, as \<^verbatim>\<open>date.weekday()\<close>), computed from the year, the month
  and the day with a table of month offsets.
\<close>

definition weekday_names :: "string list" where
  "weekday_names = [''Monday'', ''Tuesday'', ''Wednesday'', ''Thursday'', ''Friday'', ''Saturday'', ''Sunday'']"

definition weekday :: "date \<Rightarrow> nat" where
  "weekday dt =
     (case dt of (y, m, d) \<Rightarrow>
        (let t = [0, 3, 2, 5, 0, 3, 5, 1, 4, 6, 2, 4 :: int];
             y' = (if m < 3 then y - 1 else y)
         in nat ((y' + y' div 4 - y' div 100 + y' div 400 + t ! nat (m - 1) + d + 6) mod 7)))"

definition day_name :: "date \<Rightarrow> string" where
  "day_name d = weekday_names ! weekday d"

text \<open>
  \<^verbatim>\<open>series.reindex(names).fillna(0)\<close>: one row per name, in the order of \<open>names\<close>, with the
  value of the series at that name, or 0 where the series has no such row.
\<close>

definition reindex_fillna :: "'k list \<Rightarrow> ('k \<times> real) list \<Rightarrow> ('k \<times> real) list" where
  "reindex_fillna names s = map (\<lambda>n. (n, case map_of s n of Some v \<Rightarrow> v | None \<Rightarrow> 0)) names"

definition expense_by_weekday :: "entry list \<Rightarrow> (string \<times> real) list option" where
  "expense_by_weekday df =
     (if df \<noteq> [] then
        Some (reindex_fillna weekday_names
               (groupby_sum (map (\<lambda>e. (day_name (date e), amount e)) (filter (\<lambda>e. type e = ''Expense'') df))))
      else None)"

section \<open>Storing entries and the CSV import\<close>

text \<open>
  The table \<^verbatim>\<open>entries\<close> is the list of its rows, in the order of insertion.
  \<^verbatim>\<open>
  def add_entry(user_id, type_, amount, category, note, date_str):
      now = datetime.utcnow().isoformat()
      conn.execute("INSERT INTO entries (user_id, type, amount, category, note, date, created_at) VALUES (?, ?, ?, ?, ?, ?, ?)",
                   (user_id, type_, amount, category, note, date_str, now))
      conn.commit()

  def get_entries_df(user_id):
      df = pd.read_sql_query("SELECT * FROM entries WHERE user_id=? ORDER BY date ASC", conn, params=(user_id,), parse_dates=["date"])
      if not df.empty:
          df['date'] = pd.to_datetime(df['date']).dt.date
      return df
  \<close>
\<close>

definition add_entry ::
    "nat \<Rightarrow> string \<Rightarrow> real \<Rightarrow> string \<Rightarrow> string \<Rightarrow> date \<Rightarrow> entry list \<Rightarrow> entry list" where
  "add_entry uid type' amount' category' note' date_str conn =
     conn @ [\<lparr>user_id = uid, type = type', amount = amount', category = category',
              entry_note = note', date = date_str\<rparr>]"

definition get_entries_df :: "nat \<Rightarrow> entry list \<Rightarrow> entry list" where
  "get_entries_df uid conn = sort_key date (filter (\<lambda>e. user_id e = uid) conn)"

text \<open>
  \<^verbatim>\<open>str.capitalize()\<close>: the first character in upper case, the others in lower case.
  The model changes the 26 ASCII letters and leaves every other character as it is.
\<close>

definition lower_letters :: string where
  "lower_letters = ''abcdefghijklmnopqrstuvwxyz''"

definition upper_letters :: string where
  "upper_letters = ''ABCDEFGHIJKLMNOPQRSTUVWXYZ''"

definition to_upper :: "char \<Rightarrow> char" where
  "to_upper c = (case map_of (zip lower_letters upper_letters) c of Some u \<Rightarrow> u | None \<Rightarrow> c)"

definition to_lower :: "char \<Rightarrow> char" where
  "to_lower c = (case map_of (zip upper_letters lower_letters) c of Some l \<Rightarrow> l | None \<Rightarrow> c)"

fun capitalize :: "string \<Rightarrow> string" where
  "capitalize [] = []"
| "capitalize (c # cs) = to_upper c # map to_lower cs"

text \<open>
  A row of an uploaded file whose header holds the columns \<^verbatim>\<open>type\<close>, \<^verbatim>\<open>amount\<close>,
  \<^verbatim>\<open>category\<close> and \<^verbatim>\<open>date\<close> under these names. \<open>row_type\<close> is \<^verbatim>\<open>str(row['type'])\<close>;
  \<open>row_amount\<close> is \<open>None\<close> where \<^verbatim>\<open>float(row['amount'])\<close> raises, \<open>row_date\<close> is
  \<open>None\<close> where \<^verbatim>\<open>pd.to_datetime(row['date'])\<close> raises.
  \<^verbatim>\<open>
          for _, row in imp_df.iterrows():
              ttype = str(row['type']).capitalize()
              amt = float(row['amount'])
              cat = row.get('category', 'Other')
              d = pd.to_datetime(row['date']).date().isoformat()
              add_entry(user[0], ttype, amt, cat, '', d)
          st.sidebar.success("Imported transactions")
      except Exception as e:
          st.sidebar.error(f"Import failed: {e}")
  \<close>
  The loop returns the exception that ended it, if any, and the table: every
  \<^verbatim>\<open>add_entry\<close> commits, so the rows stored before an exception stay.
\<close>

record csv_row =
  row_type :: string
  row_amount :: "real option"
  row_category :: string
  row_date :: "date option"

fun import_rows :: "nat \<Rightarrow> csv_row list \<Rightarrow> entry list \<Rightarrow> error option \<times> entry list" where
  "import_rows uid [] conn = (None, conn)"
| "import_rows uid (row # rows) conn =
     (let ttype = capitalize (row_type row)
      in case row_amount row of
           None \<Rightarrow> (Some ValueError, conn)
         | Some amt \<Rightarrow>
             (let cat = row_category row
              in case row_date row of
                   None \<Rightarrow> (Some ValueError, conn)
                 | Some d \<Rightarrow> import_rows uid rows (add_entry uid ttype amt cat [] d conn)))"

section \<open>Notions of the specification\<close>

text \<open>
  The summed expense of a category: the sum of the amounts of the Expense entries of the
  ledger that carry it.
\<close>

definition expense_of_category :: "entry list \<Rightarrow> string \<Rightarrow> real" where
  "expense_of_category df c =
     sum_list (map amount (filter (\<lambda>e. type e = ''Expense'' \<and> category e = c) df))"

text \<open>
  The expenses of the current month: the sum of the amounts of the Expense entries dated
  on or after the first day of the calendar month of \<open>today\<close>.
\<close>

definition current_month_expenses :: "date \<Rightarrow> entry list \<Rightarrow> real" where
  "current_month_expenses today df =
     sum_list (map amount
       (filter (\<lambda>e. type e = ''Expense'' \<and> (fst today, fst (snd today), 1) \<le> date e) df))"

text \<open>
  The summed expense of a weekday: the sum of the amounts of the Expense entries whose
  date falls on it.
\<close>

definition expense_of_weekday :: "entry list \<Rightarrow> string \<Rightarrow> real" where
  "expense_of_weekday df n =
     sum_list (map amount (filter (\<lambda>e. type e = ''Expense'' \<and> day_name (date e) = n) df))"

text \<open>
  The rule a message comes from: 1 the top-category rule, 2 the budget rule, 3 the
  low-savings rule, 4 the fallback.
\<close>

fun insight_rule :: "insight \<Rightarrow> nat" where
  "insight_rule (TopCategoryWarning _ _) = 1"
| "insight_rule (TopCategoryOk _ _) = 1"
| "insight_rule (BudgetExceeded _ _) = 2"
| "insight_rule (BudgetUsed _ _ _) = 2"
| "insight_rule LowSavings = 3"
| "insight_rule NoMajorIssues = 4"

section \<open>Rounding, grouping, sorting and the blocks of the insight generator\<close>

text \<open>
  Evaluation of \<open>double\<close> at numerals only: the recursion of \<open>exponent_of\<close> is unfolded
  where its argument is a numeral or a quotient of numerals.
\<close>

lemmas exponent_of_numeral =
  exponent_of.simps [of 1]
  exponent_of.simps [of "numeral a"]
  exponent_of.simps [of "1 / numeral b"]
  exponent_of.simps [of "numeral a / numeral b"]
  for a b

lemmas double_numeral =
  double_def [of 0]
  double_def [of 1]
  double_def [of "numeral a"]
  double_def [of "1 / numeral b"]
  double_def [of "numeral a / numeral b"]
  for a b

lemmas float_eval =
  double_numeral exponent_of_numeral pow2_def round_half_even_def
  float_sub_def float_mul_def float_div_def

lemma and_then_Inr [simp]: "and_then (Inr x) f = f x"
  by (simp add: and_then_def)




lemma groupby_sum_mem:
  "(k, v) \<in> set (groupby_sum rows) \<longleftrightarrow>
     k \<in> fst ` set rows \<and> v = sum_list (map snd (filter (\<lambda>r. fst r = k) rows))"
  by (auto simp: groupby_sum_def)

lemma sort_key_Nil_iff: "sort_key f xs = [] \<longleftrightarrow> xs = []"
  by (metis length_sort length_0_conv)

lemma groupby_sum_Nil_iff: "groupby_sum rows = [] \<longleftrightarrow> rows = []"
  by (simp add: groupby_sum_def sort_key_Nil_iff)

lemma map_of_groupby_sum:
  "map_of (groupby_sum rows) k =
     (if k \<in> fst ` set rows then Some (sum_list (map snd (filter (\<lambda>r. fst r = k) rows))) else None)"
  by (simp add: groupby_sum_def map_of_map_restrict restrict_map_def)

lemma descending_sort_Nil_iff:
  assumes "descending_sort sort_values"
  shows "sort_values g = [] \<longleftrightarrow> g = []"
proof -
  from assms have "mset (sort_values g) = mset g" by (simp add: descending_sort_def)
  then show ?thesis by (metis mset_zero_iff)
qed

lemma descending_sort_head:
  assumes "descending_sort sort_values" and "sort_values g = x # rest"
  shows "x \<in> set g" and "\<forall>y\<in>set g. snd y \<le> snd x"
proof -
  from assms(1) have m: "mset (sort_values g) = mset g"
    and s: "sorted (map (\<lambda>r. - snd r) (sort_values g))"
    by (simp_all add: descending_sort_def)
  from m have "set (sort_values g) = set g" by (rule mset_eq_setD)
  with assms(2) have setg: "set g = insert x (set rest)" by simp
  then show "x \<in> set g" by simp
  from s assms(2) have "\<forall>y\<in>set rest. - snd x \<le> - snd y" by simp
  with setg show "\<forall>y\<in>set g. snd y \<le> snd x" by auto
qed

lemma descending_sort_stable: "descending_sort stable_sort_desc"
  by (simp add: descending_sort_def stable_sort_desc_def)



lemma category_rows_sum:
  "sum_list (map snd (filter (\<lambda>r. fst r = c)
       (map (\<lambda>e. (category e, amount e)) (filter (\<lambda>e. type e = ''Expense'') df))))
   = expense_of_category df c"
  by (induction df) (simp_all add: expense_of_category_def)

lemma exp_df_head:
  assumes "descending_sort sort_values"
    and "list_ex (\<lambda>e. type e = ''Expense'') df"
  shows "\<exists>c rest.
           sort_values (groupby_sum
             (map (\<lambda>e. (category e, amount e)) (filter (\<lambda>e. type e = ''Expense'') df)))
             = (c, expense_of_category df c) # rest
         \<and> (\<exists>e\<in>set df. type e = ''Expense'' \<and> category e = c)
         \<and> (\<forall>e\<in>set df. type e = ''Expense'' \<longrightarrow>
              expense_of_category df (category e) \<le> expense_of_category df c)"
proof -
  let ?rows = "map (\<lambda>e. (category e, amount e)) (filter (\<lambda>e. type e = ''Expense'') df)"
  let ?g = "groupby_sum ?rows"
  have mem: "(k, v) \<in> set ?g \<longleftrightarrow>
      (\<exists>e\<in>set df. type e = ''Expense'' \<and> category e = k) \<and> v = expense_of_category df k" for k v
    by (auto simp: groupby_sum_mem category_rows_sum image_iff)
  from assms(2) have "?rows \<noteq> []" by (auto simp: list_ex_iff filter_empty_conv)
  then have "sort_values ?g \<noteq> []"
    by (simp add: descending_sort_Nil_iff [OF assms(1)] groupby_sum_Nil_iff)
  then obtain c v rest where hd: "sort_values ?g = (c, v) # rest"
    by (cases "sort_values ?g") auto
  from descending_sort_head(1) [OF assms(1) hd] have cv: "(c, v) \<in> set ?g" .
  then have v: "v = expense_of_category df c"
    and ex: "\<exists>e\<in>set df. type e = ''Expense'' \<and> category e = c"
    by (simp_all add: mem)
  have max: "expense_of_category df (category e) \<le> expense_of_category df c"
    if "e \<in> set df" "type e = ''Expense''" for e
  proof -
    from that have "(category e, expense_of_category df (category e)) \<in> set ?g"
      by (auto simp: mem)
    with descending_sort_head(2) [OF assms(1) hd] show ?thesis by (auto simp: v)
  qed
  from hd v ex max show ?thesis by blast
qed

lemma top_category_block_no_expense:
  "\<not> list_ex (\<lambda>e. type e = ''Expense'') df \<Longrightarrow>
   top_category_block sort_values df expenses insights = Inr insights"
  by (simp add: top_category_block_def)

lemma top_category_block_expense:
  assumes "descending_sort sort_values"
    and "list_ex (\<lambda>e. type e = ''Expense'') df"
  shows "\<exists>c share.
           (\<forall>insights. top_category_block sort_values df expenses insights =
              Inr (insights @ [if share > double (2 / 5) then TopCategoryWarning share c
                               else TopCategoryOk c share]))
         \<and> share = (if expenses > 0 then double (expense_of_category df c / expenses) else 0)
         \<and> (\<exists>e\<in>set df. type e = ''Expense'' \<and> category e = c)
         \<and> (\<forall>e\<in>set df. type e = ''Expense'' \<longrightarrow>
              expense_of_category df (category e) \<le> expense_of_category df c)"
proof -
  from assms(2) have ne: "df \<noteq> []" by auto
  from exp_df_head [OF assms] obtain c rest where
    hd: "sort_values (groupby_sum
             (map (\<lambda>e. (category e, amount e)) (filter (\<lambda>e. type e = ''Expense'') df)))
             = (c, expense_of_category df c) # rest"
    and props: "\<exists>e\<in>set df. type e = ''Expense'' \<and> category e = c"
      "\<forall>e\<in>set df. type e = ''Expense'' \<longrightarrow>
              expense_of_category df (category e) \<le> expense_of_category df c"
    by blast
  define share where
    "share = (if expenses > 0 then double (expense_of_category df c / expenses) else 0)"
  from hd assms(2) ne have "\<forall>insights. top_category_block sort_values df expenses insights =
      Inr (insights @ [if share > double (2 / 5) then TopCategoryWarning share c
                       else TopCategoryOk c share])"
    by (simp add: top_category_block_def float_div_def Let_def share_def)
  with props share_def show ?thesis by blast
qed

lemma monthly_exp_eq:
  "(if df \<noteq> [] then
      sum_list (map amount (filter (\<lambda>e. type e = ''Expense'' \<and> date e \<ge> replace_day1 today) df))
    else 0) = current_month_expenses today df"
  by (cases today) (auto simp: current_month_expenses_def replace_day1_def)

lemma budget_block_eq:
  "budget_block today df budget insights =
     Inr (insights @
       (case budget of None \<Rightarrow> []
        | Some b \<Rightarrow>
            [if current_month_expenses today df > b
             then BudgetExceeded b (current_month_expenses today df)
             else BudgetUsed (if b > 0 then current_month_expenses today df / b else 0)
                    (current_month_expenses today df) b]))"
  unfolding budget_block_def monthly_exp_eq Let_def
  by (simp add: py_div_def split: option.split)

lemma low_savings_block_eq:
  "low_savings_block income expenses insights =
     Inr (insights @
       (if 0 < income \<and> (income - expenses) / income < 0.05 then [LowSavings] else []))"
  by (simp add: low_savings_block_def py_div_def)

lemma top_category_block_appends:
  assumes "descending_sort sort_values"
  shows "\<exists>m1. (\<forall>insights. top_category_block sort_values df expenses insights = Inr (insights @ m1))
        \<and> length m1 \<le> 1 \<and> (\<forall>m\<in>set m1. insight_rule m = 1)
        \<and> (m1 = [] \<longleftrightarrow> \<not> list_ex (\<lambda>e. type e = ''Expense'') df)"
proof (cases "list_ex (\<lambda>e. type e = ''Expense'') df")
  case True
  from top_category_block_expense [OF assms True, of expenses]
  obtain c share where "\<forall>insights. top_category_block sort_values df expenses insights =
      Inr (insights @ [if share > double (2 / 5) then TopCategoryWarning share c
                       else TopCategoryOk c share])"
    by blast
  with True show ?thesis
    by (intro exI [of _ "[if share > double (2 / 5) then TopCategoryWarning share c
                          else TopCategoryOk c share]"]) simp
next
  case False
  then show ?thesis
    by (intro exI [of _ "[]"]) (simp add: top_category_block_no_expense)
qed

lemma budget_block_appends:
  "\<exists>m2. (\<forall>insights. budget_block today df budget insights = Inr (insights @ m2))
        \<and> length m2 \<le> 1 \<and> (\<forall>m\<in>set m2. insight_rule m = 2) \<and> (m2 = [] \<longleftrightarrow> budget = None)"
  by (cases budget) (simp_all add: budget_block_eq)

lemma low_savings_block_appends:
  "\<exists>m3. (\<forall>insights. low_savings_block income expenses insights = Inr (insights @ m3))
        \<and> length m3 \<le> 1 \<and> (\<forall>m\<in>set m3. insight_rule m = 3)"
  by (simp add: low_savings_block_eq)

lemma generate_insights_chain:
  assumes "\<forall>insights. top_category_block sort_values df expenses insights = Inr (insights @ m1)"
    and "\<forall>insights. budget_block today df budget insights = Inr (insights @ m2)"
    and "\<forall>insights. low_savings_block income expenses insights = Inr (insights @ m3)"
  shows "generate_insights sort_values today df income expenses budget =
           Inr (if m1 @ m2 @ m3 = [] then [NoMajorIssues] else m1 @ m2 @ m3)"
  using assms by (simp add: generate_insights_def fallback_block_def)

section \<open>Health score\<close>




section \<open>Totals\<close>

text \<open>
  C2. For every ledger, the empty one included, the three results of the aggregation are
  the sum of the amounts of the Income entries, the sum of the amounts of the Expense
  entries, and exactly their difference.
\<close>

theorem compute_summary_savings:
  "compute_summary df =
     (sum_list (map amount (filter (\<lambda>e. type e = ''Income'') df)),
      sum_list (map amount (filter (\<lambda>e. type e = ''Expense'') df)),
      sum_list (map amount (filter (\<lambda>e. type e = ''Income'') df))
        - sum_list (map amount (filter (\<lambda>e. type e = ''Expense'') df)))"
  by (cases df) (simp_all add: compute_summary_def Let_def)

section \<open>The chain of rules\<close>

text \<open>
  C3. For every input (any ledger, any totals, budget present or absent), and whatever
  the order in which the library's sort leaves rows of equal value,
  \<^verbatim>\<open>generate_insights\<close> returns, without raising, a non-empty list. With \<open>m1\<close>, \<open>m2\<close>,
  \<open>m3\<close> the messages of the top-category, budget and low-savings rules (at most one
  each): the fallback message is in the result exactly when the three rules produced
  nothing, and it is then the only element; otherwise the result is the messages of the
  rules in the order top-category, budget, low-savings.
\<close>

theorem generate_insights_never_empty:
  assumes "descending_sort sort_values"
  shows "\<exists>m1 m2 m3 result.
      top_category_block sort_values df expenses [] = Inr m1
    \<and> budget_block today df budget [] = Inr m2
    \<and> low_savings_block income expenses [] = Inr m3
    \<and> generate_insights sort_values today df income expenses budget = Inr result
    \<and> result \<noteq> []
    \<and> (NoMajorIssues \<in> set result \<longleftrightarrow> m1 = [] \<and> m2 = [] \<and> m3 = [])
    \<and> (NoMajorIssues \<in> set result \<longrightarrow> result = [NoMajorIssues])
    \<and> (NoMajorIssues \<notin> set result \<longrightarrow> result = m1 @ m2 @ m3)
    \<and> length m1 \<le> 1 \<and> length m2 \<le> 1 \<and> length m3 \<le> 1
    \<and> (\<forall>m\<in>set m1. insight_rule m = 1)
    \<and> (\<forall>m\<in>set m2. insight_rule m = 2)
    \<and> (\<forall>m\<in>set m3. insight_rule m = 3)"
proof -
  obtain m1 where m1: "\<forall>insights. top_category_block sort_values df expenses insights = Inr (insights @ m1)"
    and l1: "length m1 \<le> 1" and r1: "\<forall>m\<in>set m1. insight_rule m = 1"
    using top_category_block_appends [OF assms] by blast
  obtain m2 where m2: "\<forall>insights. budget_block today df budget insights = Inr (insights @ m2)"
    and l2: "length m2 \<le> 1" and r2: "\<forall>m\<in>set m2. insight_rule m = 2"
    using budget_block_appends by blast
  obtain m3 where m3: "\<forall>insights. low_savings_block income expenses insights = Inr (insights @ m3)"
    and l3: "length m3 \<le> 1" and r3: "\<forall>m\<in>set m3. insight_rule m = 3"
    using low_savings_block_appends by blast
  define result where "result = (if m1 @ m2 @ m3 = [] then [NoMajorIssues] else m1 @ m2 @ m3)"
  have gi: "generate_insights sort_values today df income expenses budget = Inr result"
    unfolding result_def by (rule generate_insights_chain [OF m1 m2 m3])
  have notin: "NoMajorIssues \<notin> set (m1 @ m2 @ m3)"
    using r1 r2 r3 by fastforce
  have b1: "top_category_block sort_values df expenses [] = Inr m1" using m1 by simp
  have b2: "budget_block today df budget [] = Inr m2" using m2 by simp
  have b3: "low_savings_block income expenses [] = Inr m3" using m3 by simp
  have ne: "result \<noteq> []" by (simp add: result_def)
  have iff: "NoMajorIssues \<in> set result \<longleftrightarrow> m1 = [] \<and> m2 = [] \<and> m3 = []"
    using notin by (auto simp: result_def)
  have only: "NoMajorIssues \<in> set result \<longrightarrow> result = [NoMajorIssues]"
    using notin by (auto simp: result_def)
  have ord: "NoMajorIssues \<notin> set result \<longrightarrow> result = m1 @ m2 @ m3"
    by (auto simp: result_def)
  from b1 b2 b3 gi ne iff only ord l1 l2 l3 r1 r2 r3 show ?thesis by blast
qed

theorem generate_insights_never_empty_witness:
  "generate_insights stable_sort_desc (2024, 1, 20)
     [\<lparr>user_id = 1, type = ''Income'', amount = 1000, category = ''Other'', entry_note = '''', date = (2024, 1, 15)\<rparr>,
      \<lparr>user_id = 1, type = ''Expense'', amount = 990, category = ''Food'', entry_note = '''', date = (2024, 1, 15)\<rparr>]
     1000 990 (Some 500)
     = Inr [TopCategoryWarning 1 ''Food'', BudgetExceeded 500 990, LowSavings]
   \<and> generate_insights stable_sort_desc (2024, 1, 20) [] 0 0 None = Inr [NoMajorIssues]"
proof -
  let ?df = "[\<lparr>user_id = 1, type = ''Income'', amount = 1000, category = ''Other'', entry_note = '''', date = (2024, 1, 15)\<rparr>,
      \<lparr>user_id = 1, type = ''Expense'', amount = 990, category = ''Food'', entry_note = '''', date = (2024, 1, 15)\<rparr>]"
  have t: "top_category_block stable_sort_desc ?df 990 [] = Inr [TopCategoryWarning 1 ''Food'']"
    by (simp add: top_category_block_def groupby_sum_def stable_sort_desc_def float_eval Let_def)
  have b: "budget_block (2024, 1, 20) ?df (Some 500) [] = Inr [BudgetExceeded 500 990]"
    by (simp add: budget_block_def replace_day1_def py_div_def Let_def)
  have l: "low_savings_block 1000 990 [] = Inr [LowSavings]"
    by (simp add: low_savings_block_def py_div_def)
  have t0: "top_category_block stable_sort_desc [] 0 [] = Inr []"
    by (simp add: top_category_block_def)
  have b0: "budget_block (2024, 1, 20) [] None [] = Inr []"
    by (simp add: budget_block_def)
  have l0: "low_savings_block 0 0 [] = Inr []"
    by (simp add: low_savings_block_def)
  from generate_insights_never_empty [OF descending_sort_stable, of ?df 990 "(2024, 1, 20)" "Some 500" 1000]
  have first: "generate_insights stable_sort_desc (2024, 1, 20) ?df 1000 990 (Some 500)
     = Inr [TopCategoryWarning 1 ''Food'', BudgetExceeded 500 990, LowSavings]"
    unfolding t b l by auto
  from generate_insights_never_empty [OF descending_sort_stable, of "[]" 0 "(2024, 1, 20)" None 0]
  have second: "generate_insights stable_sort_desc (2024, 1, 20) [] 0 0 None = Inr [NoMajorIssues]"
    unfolding t0 b0 l0 by auto
  from first second show ?thesis by (rule conjI)
qed

section \<open>The top-category rule\<close>




section \<open>The budget rule\<close>




section \<open>The low-savings rule\<close>

text \<open>
  C6. The low-savings rule appends its advisory message exactly when the income is
  positive and (income - expenses) / income is below 0.05, and nothing otherwise: at
  most one message. Without positive income the block returns the list unchanged and
  does not raise: the quotient is not computed.
\<close>

theorem low_savings_rule:
  "low_savings_block income expenses insights =
     Inr (insights @
       (if 0 < income \<and> (income - expenses) / income < 0.05 then [LowSavings] else []))
   \<and> (income \<le> 0 \<longrightarrow> low_savings_block income expenses insights = Inr insights)"
  by (simp add: low_savings_block_eq)

theorem low_savings_rule_witness:
  "low_savings_block 1000 960 [] = Inr [LowSavings]
   \<and> low_savings_block 1000 950 [] = Inr []
   \<and> (0::real) \<le> 0 \<and> low_savings_block 0 200 [] = Inr []"
  using low_savings_rule [of 1000 960 "[]"] low_savings_rule [of 1000 950 "[]"]
    low_savings_rule [of 0 200 "[]"]
  by simp



section \<open>Expenses by weekday\<close>

lemma weekday_less_7: "weekday d < 7"
  by (cases d) (simp add: weekday_def Let_def nat_less_iff)

lemma length_weekday_names: "length weekday_names = 7"
  by (simp add: weekday_names_def)

lemma distinct_weekday_names: "distinct weekday_names"
  by (simp add: weekday_names_def)

lemma day_name_in_weekday_names: "day_name d \<in> set weekday_names"
  unfolding day_name_def using weekday_less_7 [of d] length_weekday_names
  by (metis nth_mem)

lemma weekday_rows_sum:
  "sum_list (map snd (filter (\<lambda>r. fst r = n)
       (map (\<lambda>e. (day_name (date e), amount e)) (filter (\<lambda>e. type e = ''Expense'') df))))
   = expense_of_weekday df n"
  by (induction df) (simp_all add: expense_of_weekday_def)

lemma reindex_groupby_value:
  "(case map_of (groupby_sum rows) n of Some v \<Rightarrow> v | None \<Rightarrow> 0)
   = sum_list (map snd (filter (\<lambda>r. fst r = n) rows))"
proof (cases "n \<in> fst ` set rows")
  case True
  then show ?thesis by (simp add: map_of_groupby_sum)
next
  case False
  then have "filter (\<lambda>r. fst r = n) rows = []"
    by (auto simp: filter_empty_conv)
  with False show ?thesis by (simp add: map_of_groupby_sum)
qed

lemma expense_by_weekday_eq:
  "df \<noteq> [] \<Longrightarrow>
   expense_by_weekday df = Some (map (\<lambda>n. (n, expense_of_weekday df n)) weekday_names)"
  by (simp add: expense_by_weekday_def reindex_fillna_def reindex_groupby_value weekday_rows_sum)

lemma sum_list_absent_key:
  "a \<notin> set ks \<Longrightarrow> (\<Sum>k\<leftarrow>ks. if a = k then v else 0) = (0::real)"
  by (induction ks) auto

lemma sum_list_single_key:
  "distinct ks \<Longrightarrow> a \<in> set ks \<Longrightarrow> (\<Sum>k\<leftarrow>ks. if a = k then v else 0) = (v::real)"
  by (induction ks) (auto simp: sum_list_absent_key)

lemma sum_list_partition_by_key:
  assumes "distinct ks" and "\<forall>x\<in>set xs. f x \<in> set ks"
  shows "(\<Sum>k\<leftarrow>ks. sum_list (map g (filter (\<lambda>x. f x = k) xs))) = (sum_list (map g xs) :: real)"
  using assms(2)
proof (induction xs)
  case Nil
  then show ?case by simp
next
  case (Cons x xs)
  have "(\<Sum>k\<leftarrow>ks. sum_list (map g (filter (\<lambda>y. f y = k) (x # xs))))
      = (\<Sum>k\<leftarrow>ks. (if f x = k then g x else 0) + sum_list (map g (filter (\<lambda>y. f y = k) xs)))"
    by (rule arg_cong [where f = sum_list]) simp
  also have "\<dots> = (\<Sum>k\<leftarrow>ks. if f x = k then g x else 0)
                 + (\<Sum>k\<leftarrow>ks. sum_list (map g (filter (\<lambda>y. f y = k) xs)))"
    by (simp add: sum_list_addf)
  also have "(\<Sum>k\<leftarrow>ks. if f x = k then g x else 0) = g x"
    using Cons.prems assms(1) by (simp add: sum_list_single_key)
  finally show ?case using Cons by simp
qed

lemma weekday_sums_total:
  "(\<Sum>n\<leftarrow>weekday_names. expense_of_weekday df n)
   = sum_list (map amount (filter (\<lambda>e. type e = ''Expense'') df))"
proof -
  have "(\<Sum>n\<leftarrow>weekday_names. sum_list (map amount
           (filter (\<lambda>e. day_name (date e) = n) (filter (\<lambda>e. type e = ''Expense'') df))))
        = sum_list (map amount (filter (\<lambda>e. type e = ''Expense'') df))"
    by (rule sum_list_partition_by_key) (simp_all add: distinct_weekday_names day_name_in_weekday_names)
  then show ?thesis by (simp add: expense_of_weekday_def conj_commute)
qed

text \<open>
  C7, on the empty ledger. The block of the page that computes the weekday aggregate is
  guarded by \<^verbatim>\<open>if not df.empty\<close>: for the empty ledger no aggregate is computed (the
  page shows a notice), so it does not have 7 entries there.
\<close>

theorem expense_by_weekday_empty: "expense_by_weekday [] = None"
  by (simp add: expense_by_weekday_def)

text \<open>
  C7, as the code has it. For every non-empty ledger the weekday aggregate has exactly 7
  entries, one per weekday name in the order Monday to Sunday; each weekday carries the
  sum of the Expense amounts dated on it, which is 0 for a weekday without Expense
  entries; and the 7 values sum to the total expenses of \<^verbatim>\<open>compute_summary\<close>.
\<close>

theorem expense_by_weekday_spec:
  assumes "df \<noteq> []"
  shows "\<exists>heat. expense_by_weekday df = Some heat
         \<and> length heat = 7
         \<and> map fst heat = [''Monday'', ''Tuesday'', ''Wednesday'', ''Thursday'', ''Friday'',
                            ''Saturday'', ''Sunday'']
         \<and> (\<forall>n\<in>set (map fst heat). map_of heat n = Some (expense_of_weekday df n))
         \<and> (\<forall>n\<in>set (map fst heat).
               \<not> (\<exists>e\<in>set df. type e = ''Expense'' \<and> day_name (date e) = n) \<longrightarrow> map_of heat n = Some 0)
         \<and> sum_list (map snd heat) = fst (snd (compute_summary df))"
proof -
  define heat where "heat = map (\<lambda>n. (n, expense_of_weekday df n)) weekday_names"
  have eq: "expense_by_weekday df = Some heat"
    unfolding heat_def by (rule expense_by_weekday_eq [OF assms])
  have len: "length heat = 7" by (simp add: heat_def length_weekday_names)
  have keys: "map fst heat = [''Monday'', ''Tuesday'', ''Wednesday'', ''Thursday'', ''Friday'',
                            ''Saturday'', ''Sunday'']"
    by (simp add: heat_def comp_def weekday_names_def)
  have look: "\<forall>n\<in>set (map fst heat). map_of heat n = Some (expense_of_weekday df n)"
    by (simp add: heat_def map_of_map_restrict restrict_map_def comp_def)
  have zero: "expense_of_weekday df n = 0"
    if "\<not> (\<exists>e\<in>set df. type e = ''Expense'' \<and> day_name (date e) = n)" for n
  proof -
    from that have "filter (\<lambda>e. type e = ''Expense'' \<and> day_name (date e) = n) df = []"
      by (auto simp: filter_empty_conv)
    then show ?thesis by (simp add: expense_of_weekday_def)
  qed
  have zeros: "\<forall>n\<in>set (map fst heat).
      \<not> (\<exists>e\<in>set df. type e = ''Expense'' \<and> day_name (date e) = n) \<longrightarrow> map_of heat n = Some 0"
  proof (intro ballI impI)
    fix n
    assume n: "n \<in> set (map fst heat)"
      and no: "\<not> (\<exists>e\<in>set df. type e = ''Expense'' \<and> day_name (date e) = n)"
    from look n have "map_of heat n = Some (expense_of_weekday df n)" by (rule bspec)
    with zero [OF no] show "map_of heat n = Some 0" by simp
  qed
  have total: "sum_list (map snd heat) = fst (snd (compute_summary df))"
    using assms by (simp add: heat_def comp_def weekday_sums_total compute_summary_def Let_def)
  show ?thesis
    apply (rule exI [of _ heat])
    apply (intro conjI)
         apply (rule eq)
        apply (rule len)
       apply (rule keys)
      apply (rule look)
     apply (rule zeros)
    apply (rule total)
    done
qed

theorem expense_by_weekday_spec_witness:
  "[\<lparr>user_id = 1, type = ''Income'', amount = 1000, category = ''Other'', entry_note = '''', date = (2024, 1, 1)\<rparr>,
    \<lparr>user_id = 1, type = ''Expense'', amount = 200, category = ''Food'', entry_note = '''', date = (2024, 1, 1)\<rparr>,
    \<lparr>user_id = 1, type = ''Expense'', amount = 50, category = ''Rent'', entry_note = '''', date = (2024, 1, 3)\<rparr>] \<noteq> []
   \<and> (\<exists>heat. expense_by_weekday
      [\<lparr>user_id = 1, type = ''Income'', amount = 1000, category = ''Other'', entry_note = '''', date = (2024, 1, 1)\<rparr>,
       \<lparr>user_id = 1, type = ''Expense'', amount = 200, category = ''Food'', entry_note = '''', date = (2024, 1, 1)\<rparr>,
       \<lparr>user_id = 1, type = ''Expense'', amount = 50, category = ''Rent'', entry_note = '''', date = (2024, 1, 3)\<rparr>]
      = Some heat
      \<and> length heat = 7
      \<and> map fst heat = [''Monday'', ''Tuesday'', ''Wednesday'', ''Thursday'', ''Friday'',
                            ''Saturday'', ''Sunday'']
      \<and> sum_list (map snd heat) = 250)"
proof -
  let ?df = "[\<lparr>user_id = 1, type = ''Income'', amount = 1000, category = ''Other'', entry_note = '''', date = (2024, 1, 1)\<rparr>,
       \<lparr>user_id = 1, type = ''Expense'', amount = 200, category = ''Food'', entry_note = '''', date = (2024, 1, 1)\<rparr>,
       \<lparr>user_id = 1, type = ''Expense'', amount = 50, category = ''Rent'', entry_note = '''', date = (2024, 1, 3)\<rparr>]"
  have ne: "?df \<noteq> []" by simp
  have tot: "fst (snd (compute_summary ?df)) = 250" by (simp add: compute_summary_def)
  from expense_by_weekday_spec [OF ne] obtain heat where
    "expense_by_weekday ?df = Some heat" "length heat = 7"
    "map fst heat = [''Monday'', ''Tuesday'', ''Wednesday'', ''Thursday'', ''Friday'',
                            ''Saturday'', ''Sunday'']"
    "sum_list (map snd heat) = fst (snd (compute_summary ?df))"
    by (elim exE conjE)
  then have "expense_by_weekday ?df = Some heat \<and> length heat = 7
      \<and> map fst heat = [''Monday'', ''Tuesday'', ''Wednesday'', ''Thursday'', ''Friday'',
                            ''Saturday'', ''Sunday'']
      \<and> sum_list (map snd heat) = 250"
    unfolding tot by (intro conjI)
  then have "\<exists>heat. expense_by_weekday ?df = Some heat \<and> length heat = 7
      \<and> map fst heat = [''Monday'', ''Tuesday'', ''Wednesday'', ''Thursday'', ''Friday'',
                            ''Saturday'', ''Sunday'']
      \<and> sum_list (map snd heat) = 250"
    by (rule exI)
  with ne show ?thesis by (rule conjI)
qed


section \<open>The empty ledger\<close>

text \<open>
  C8, the weekday mapping. On the empty ledger the totals are zero, but the weekday
  aggregate is not the mapping of the seven weekdays to 0: its block is skipped.
\<close>

theorem empty_ledger_weekday_not_zeros:
  "compute_summary [] = (0, 0, 0)
   \<and> expense_by_weekday [] \<noteq>
       Some [(''Monday'', 0), (''Tuesday'', 0), (''Wednesday'', 0), (''Thursday'', 0),
             (''Friday'', 0), (''Saturday'', 0), (''Sunday'', 0)]"
  by (simp add: compute_summary_def expense_by_weekday_def)

text \<open>
  C8, as the code has it. On the empty ledger the aggregation raises nothing: the total
  income, the total expenses and the savings are 0, the expenses by category are the
  empty mapping and the expenses of the current month are 0; the savings trend, the
  expenses by month and the expenses by weekday are not computed (their blocks are
  guarded by \<^verbatim>\<open>if not df.empty\<close>).
\<close>

theorem empty_ledger_aggregates:
  "compute_summary [] = (0, 0, 0)
   \<and> expense_by_category [] = []
   \<and> savings_trend [] = None
   \<and> expense_by_month [] = None
   \<and> expense_by_weekday [] = None
   \<and> current_month_expenses today [] = 0"
  by (simp add: compute_summary_def expense_by_category_def savings_trend_def
      expense_by_month_def expense_by_weekday_def current_month_expenses_def)

section \<open>The category named on a tie\<close>





section \<open>The kind of imported records\<close>

text \<open>
  C10. A row of kind \<^verbatim>\<open>bonus\<close>, in a file with the four required columns, is not
  rejected: the import ends without an exception and has stored the row under the kind
  \<^verbatim>\<open>Bonus\<close>. The row is in the data frame read back for the user; the totals count it
  neither as income nor as expense, and the savings trend counts it as an expense.
\<close>

theorem csv_import_stores_unrecognized_kind:
  "import_rows 1
     [\<lparr>row_type = ''bonus'', row_amount = Some 50, row_category = ''Food'', row_date = Some (2024, 1, 15)\<rparr>]
     []
   = (None, [\<lparr>user_id = 1, type = ''Bonus'', amount = 50, category = ''Food'', entry_note = '''', date = (2024, 1, 15)\<rparr>])
   \<and> get_entries_df 1
       [\<lparr>user_id = 1, type = ''Bonus'', amount = 50, category = ''Food'', entry_note = '''', date = (2024, 1, 15)\<rparr>]
     = [\<lparr>user_id = 1, type = ''Bonus'', amount = 50, category = ''Food'', entry_note = '''', date = (2024, 1, 15)\<rparr>]
   \<and> compute_summary
       [\<lparr>user_id = 1, type = ''Bonus'', amount = 50, category = ''Food'', entry_note = '''', date = (2024, 1, 15)\<rparr>]
     = (0, 0, 0)
   \<and> savings_trend
       [\<lparr>user_id = 1, type = ''Bonus'', amount = 50, category = ''Food'', entry_note = '''', date = (2024, 1, 15)\<rparr>]
     = Some [((2024, 1, 15), - 50)]"
  by (simp add: add_entry_def get_entries_df_def compute_summary_def savings_trend_def
      groupby_sum_def cumsum_def to_upper_def to_lower_def lower_letters_def upper_letters_def
      Let_def)


end
